theory Spec2Isabelle
  imports Main "HOL-Library.Sublist"
begin

section \<open>Active link and form builder of AlphaPortfolio\<close>

text \<open>
  A shallow embedding of \<^verbatim>\<open>components/ui/nav/ActiveLink.tsx\<close> and
  \<^verbatim>\<open>components/ui/forms/FormBuilder.tsx\<close>. A JavaScript object of type
  \<^verbatim>\<open>Record<string, unknown>\<close> is the map of its own properties, with
  \<^verbatim>\<open>Object.prototype\<close> as its prototype; the
  component's React state is a record that every handler takes and returns; the calls a
  handler makes to the caller's \<^verbatim>\<open>validate\<close> and \<^verbatim>\<open>onSubmit\<close> are returned beside the
  new state.
\<close>

subsection \<open>Values and objects\<close>

text \<open>
  The values a form holds are \<^verbatim>\<open>unknown\<close> in the source. The handlers only store and copy
  them, so numbers stay an abstract type \<open>'n\<close> (what \<^verbatim>\<open>valueAsNumber\<close> delivers).
\<close>

datatype 'n jsval =
    JUndefined
  | JNull
  | JBool bool
  | JNum 'n
  | JStr string
  | JArr "'n jsval list"
  | JPrototypeMethod string
  | JObjectPrototype

type_synonym 'n jsrecord = "string \<rightharpoonup> 'n jsval"

text \<open>
  What every object inherits from \<^verbatim>\<open>Object.prototype\<close>: the methods below, read as the
  function values \<open>JPrototypeMethod\<close>, and the accessor \<^verbatim>\<open>__proto__\<close>, whose getter gives
  the prototype itself (\<open>JObjectPrototype\<close>).
\<close>

definition object_prototype_methods :: "string list" where
  "object_prototype_methods =
     [''constructor'', ''hasOwnProperty'', ''isPrototypeOf'', ''propertyIsEnumerable'',
      ''toLocaleString'', ''toString'', ''valueOf'', ''__defineGetter__'',
      ''__defineSetter__'', ''__lookupGetter__'', ''__lookupSetter__'']"

definition object_prototype_names :: "string list" where
  "object_prototype_names = ''__proto__'' # object_prototype_methods"


definition js_get :: "'n jsrecord \<Rightarrow> string \<Rightarrow> 'n jsval" where
  "js_get obj k =
     (case obj k of
        Some v \<Rightarrow> v
      | None \<Rightarrow>
          if k = ''__proto__'' then JObjectPrototype
          else if k \<in> set object_prototype_methods then JPrototypeMethod k
          else JUndefined)"

text \<open>
  The assignment \<^verbatim>\<open>obj[k] = v\<close>. It writes an own property, except that for the key
  \<^verbatim>\<open>__proto__\<close> on an object without an own property of that name it runs the inherited
  setter, which creates no own property. (Given an array, a function or \<^verbatim>\<open>null\<close> the
  setter replaces the prototype of the object. The map of own properties does not record
  that, so the results below on the values the loops store are stated for schemas without
  a field of that name, where the setter never runs.) The spread \<^verbatim>\<open>{ ...a, [k]: v }\<close> always defines
  own properties and stays a map update.
\<close>

definition js_set :: "'n jsrecord \<Rightarrow> string \<Rightarrow> 'n jsval \<Rightarrow> 'n jsrecord" where
  "js_set obj k v = (if obj k = None \<and> k = ''__proto__'' then obj else obj(k \<mapsto> v))"

subsection \<open>Field descriptors (types/BaseField.ts and the variants)\<close>

datatype ftype =
  Text | Email | Password | Textarea | Number | Checkbox | Select | Multiselect

record 'n FormField =
  ftype :: ftype
  name :: string
  label :: string
  placeholder :: "string option"
  disabled :: "bool option"
  required :: "bool option"
  description :: "string option"
  field_id :: "string option"
  visibleIf :: "('n jsrecord \<Rightarrow> bool) option"

subsection \<open>ActiveLink.tsx\<close>

text \<open>
  \<^verbatim>\<open>usePathname()\<close> gives a string or \<^verbatim>\<open>null\<close> (\<open>None\<close>). The guard
  \<^verbatim>\<open>if(!pathname) return false\<close> is taken by \<^verbatim>\<open>null\<close> and by the empty string, the
  two falsy values of that type; \<^verbatim>\<open>startsWith\<close> is the prefix order on strings.
\<close>

definition isActive :: "string option \<Rightarrow> string \<Rightarrow> bool \<Rightarrow> bool" where
  "isActive pathname href exact =
     (case pathname of
        None \<Rightarrow> False
      | Some path \<Rightarrow>
          if path = [] then False
          else if exact then path = href
          else prefix href path)"

subsection \<open>FormBuilder.tsx: properties, state and events\<close>

text \<open>
  The properties the handlers read. An omitted \<^verbatim>\<open>initialValues\<close> is the empty object,
  an omitted \<^verbatim>\<open>validate\<close> is \<open>None\<close>; a validator returns \<^verbatim>\<open>null\<close> (\<open>None\<close>) or
  an object of messages. \<^verbatim>\<open>onSubmit\<close> belongs to the caller: the model records the
  argument it is called with, and takes how its promise settles as an input.
\<close>

text \<open>\<open>form_fields\<close> is the property \<^verbatim>\<open>fields\<close>.\<close>

record 'n FormBuilderProps =
  form_fields :: "'n FormField list"
  initialValues :: "'n jsrecord"
  loading :: bool
  resetOnSubmit :: bool
  validate :: "('n jsrecord \<Rightarrow> (string \<rightharpoonup> string) option) option"

record 'n FormState =
  formValues :: "'n jsrecord"
  errors :: "string \<rightharpoonup> string"

datatype element = HTMLInputElement | HTMLTextAreaElement | HTMLSelectElement

text \<open>The target of a DOM change event, with the properties \<^verbatim>\<open>handleFieldChange\<close> reads.\<close>

record 'n target =
  element :: element
  target_name :: string
  target_type :: string
  target_value :: string
  checked :: bool
  valueAsNumber :: 'n
  multiple :: bool
  selectedOptions :: "string list"

text \<open>
  The argument of \<^verbatim>\<open>handleFieldChange\<close>: a DOM event, or a name (a string) with the
  optional value (\<^verbatim>\<open>undefined\<close> when left out).
\<close>

datatype 'n change = DomEvent "'n target" | NameValue string "'n jsval"

datatype settled = Resolved | Rejected

record 'n submitted =
  state :: "'n FormState"
  validate_arg :: "'n jsrecord option"
  onSubmit_arg :: "'n jsrecord option"

subsection \<open>FormBuilder.tsx: the functions\<close>

definition defaultFor :: "'n FormField \<Rightarrow> 'n jsval" where
  "defaultFor field =
     (case ftype field of
        Checkbox \<Rightarrow> JBool False
      | Multiselect \<Rightarrow> JArr []
      | Select \<Rightarrow> JStr []
      | Number \<Rightarrow> JStr []
      | Textarea \<Rightarrow> JStr []
      | Text \<Rightarrow> JStr []
      | Email \<Rightarrow> JStr []
      | Password \<Rightarrow> JStr [])"



text \<open>
  The effect on \<^verbatim>\<open>[initialValues]\<close>: when the object has a key, the spread
  \<^verbatim>\<open>{ ...prev, ...initialValues }\<close>.
\<close>

definition initialValues_effect :: "'n jsrecord \<Rightarrow> 'n jsrecord \<Rightarrow> 'n jsrecord" where
  "initialValues_effect init prev = (if dom init \<noteq> {} then prev ++ init else prev)"


text \<open>The value \<^verbatim>\<open>handleFieldChange\<close> takes from a DOM target.\<close>

definition event_value :: "'n target \<Rightarrow> 'n jsval" where
  "event_value t =
     (if element t = HTMLInputElement \<and> target_type t = ''checkbox'' then JBool (checked t)
      else if element t = HTMLInputElement \<and> target_type t = ''number'' then
        (if target_value t = [] then JStr [] else JNum (valueAsNumber t))
      else if element t = HTMLSelectElement \<and> multiple t then
        JArr (map JStr (selectedOptions t))
      else JStr (target_value t))"

fun handleFieldChange :: "'n change \<Rightarrow> 'n FormState \<Rightarrow> 'n FormState" where
  "handleFieldChange (NameValue nm v) s =
     s\<lparr>formValues := (formValues s)(nm \<mapsto> v), errors := (errors s)(nm \<mapsto> [])\<rparr>"
| "handleFieldChange (DomEvent t) s =
     s\<lparr>formValues := (formValues s)(target_name t \<mapsto> event_value t),
       errors := (errors s)(target_name t \<mapsto> [])\<rparr>"

definition doReset :: "'n FormField list \<Rightarrow> 'n FormState \<Rightarrow> 'n FormState" where
  "doReset fs s =
     s\<lparr>formValues := fold (\<lambda>f reset. js_set reset (name f) (defaultFor f)) fs Map.empty,
       errors := Map.empty\<rparr>"

text \<open>The test \<^verbatim>\<open>!f.visibleIf || f.visibleIf(formValues)\<close> of \<^verbatim>\<open>handleSubmit\<close>.\<close>

definition is_visible :: "'n FormField \<Rightarrow> 'n jsrecord \<Rightarrow> bool" where
  "is_visible f vals = (case visibleIf f of None \<Rightarrow> True | Some pr \<Rightarrow> pr vals)"

definition visibleValues :: "'n FormField list \<Rightarrow> 'n jsrecord \<Rightarrow> 'n jsrecord" where
  "visibleValues fs vals =
     fold (\<lambda>f vv. if is_visible f vals then js_set vv (name f) (js_get vals (name f)) else vv)
          fs Map.empty"

text \<open>
  The synchronous part of \<^verbatim>\<open>handleSubmit\<close>, up to the call of \<^verbatim>\<open>onSubmit\<close> inside
  \<^verbatim>\<open>startTransition\<close>. \<^verbatim>\<open>validate(visibleValues) || {}\<close> turns \<^verbatim>\<open>null\<close> into the
  empty object; \<^verbatim>\<open>Object.keys(nextErrors).length > 0\<close> returns before the handler.
\<close>

definition handleSubmit :: "'n FormBuilderProps \<Rightarrow> 'n FormState \<Rightarrow> 'n submitted" where
  "handleSubmit p s =
     (let vv = visibleValues (form_fields p) (formValues s) in
      case validate p of
        None \<Rightarrow> \<lparr>state = s, validate_arg = None, onSubmit_arg = Some vv\<rparr>
      | Some v \<Rightarrow>
          (let nextErrors = (case v vv of None \<Rightarrow> Map.empty | Some e \<Rightarrow> e) in
           if dom nextErrors \<noteq> {}
           then \<lparr>state = s\<lparr>errors := nextErrors\<rparr>, validate_arg = Some vv, onSubmit_arg = None\<rparr>
           else \<lparr>state = s\<lparr>errors := nextErrors\<rparr>, validate_arg = Some vv,
                 onSubmit_arg = Some vv\<rparr>))"

text \<open>
  The rest of the transition callback, run when the promise of \<^verbatim>\<open>onSubmit\<close> settles:
  \<^verbatim>\<open>if (resetOnSubmit) doReset()\<close> after a fulfilled \<^verbatim>\<open>await\<close>, nothing after a
  rejected one. \<^verbatim>\<open>doReset\<close> sets both states outright, so it acts on whatever state is
  current then.
\<close>

definition after_onSubmit ::
  "'n FormBuilderProps \<Rightarrow> settled \<Rightarrow> 'n FormState \<Rightarrow> 'n FormState" where
  "after_onSubmit p outcome s =
     (if outcome = Resolved \<and> resetOnSubmit p then doReset (form_fields p) s else s)"

text \<open>One submit attempt run to its end, with no other event in between.\<close>

definition submit_cycle ::
  "'n FormBuilderProps \<Rightarrow> settled \<Rightarrow> 'n FormState \<Rightarrow> 'n FormState" where
  "submit_cycle p outcome s =
     (let r = handleSubmit p s in
      case onSubmit_arg r of
        None \<Rightarrow> state r
      | Some payload \<Rightarrow> after_onSubmit p outcome (state r))"

text \<open>
  The render shows a message under a field when \<^verbatim>\<open>errors[field.name]\<close> is truthy: an
  own empty string shows nothing, and so does a missing entry unless the name is an
  inherited one (the function or object read then is truthy).
\<close>

definition shown_error :: "(string \<rightharpoonup> string) \<Rightarrow> string \<Rightarrow> bool" where
  "shown_error errs k =
     (case errs k of None \<Rightarrow> k \<in> set object_prototype_names | Some e \<Rightarrow> e \<noteq> [])"

subsection \<open>The specification's table of defaults\<close>

text \<open>
  The table of section 4.2 of the specification, row by row, to compare with
  \<open>defaultFor\<close>: checkbox \<^verbatim>\<open>false\<close>; multiselect the empty sequence; select the empty
  string; number the empty string; text, email, password and textarea the empty string.
\<close>

fun documented_default :: "ftype \<Rightarrow> 'n jsval" where
  "documented_default Checkbox = JBool False"
| "documented_default Multiselect = JArr []"
| "documented_default Select = JStr []"
| "documented_default Number = JStr []"
| "documented_default Text = JStr []"
| "documented_default Email = JStr []"
| "documented_default Password = JStr []"
| "documented_default Textarea = JStr []"

subsection \<open>A schema to run the functions on\<close>

text \<open>
  The schema of the specification's scenarios: a text field \<^verbatim>\<open>name\<close>, a checkbox
  \<^verbatim>\<open>subscribe\<close>, and a select \<^verbatim>\<open>plan\<close> that is visible only when \<^verbatim>\<open>subscribe\<close> is
  \<^verbatim>\<open>true\<close>; with it a state in which \<^verbatim>\<open>plan\<close> is hidden and holds a value, and two
  DOM targets.
\<close>

definition descriptor ::
  "ftype \<Rightarrow> string \<Rightarrow> ('n jsrecord \<Rightarrow> bool) option \<Rightarrow> 'n FormField" where
  "descriptor ty nm vis =
     \<lparr>ftype = ty, name = nm, label = nm, placeholder = None, disabled = None,
      required = None, description = None, field_id = None, visibleIf = vis\<rparr>"

definition subscribed :: "int jsrecord \<Rightarrow> bool" where
  "subscribed vals = (vals ''subscribe'' = Some (JBool True))"

definition signup_schema :: "int FormField list" where
  "signup_schema =
     [descriptor Text ''name'' None,
      descriptor Checkbox ''subscribe'' None,
      descriptor Select ''plan'' (Some subscribed)]"

definition signup_props ::
  "int jsrecord \<Rightarrow> bool \<Rightarrow> (int jsrecord \<Rightarrow> (string \<rightharpoonup> string) option) option \<Rightarrow>
   int FormBuilderProps" where
  "signup_props init reset v =
     \<lparr>form_fields = signup_schema, initialValues = init, loading = False,
      resetOnSubmit = reset, validate = v\<rparr>"

text \<open>A validator that asks for a non-empty \<^verbatim>\<open>name\<close>.\<close>

definition name_required :: "int jsrecord \<Rightarrow> (string \<rightharpoonup> string) option" where
  "name_required vals =
     (if vals ''name'' = Some (JStr []) then Some [''name'' \<mapsto> ''Required''] else None)"

definition number_input :: "string \<Rightarrow> string \<Rightarrow> int \<Rightarrow> int target" where
  "number_input nm txt n =
     \<lparr>element = HTMLInputElement, target_name = nm, target_type = ''number'',
      target_value = txt, checked = False, valueAsNumber = n, multiple = False,
      selectedOptions = []\<rparr>"

definition filled_state :: "int FormState" where
  "filled_state =
     \<lparr>formValues = [''name'' \<mapsto> JStr ''Ada'', ''subscribe'' \<mapsto> JBool False,
                    ''plan'' \<mapsto> JStr ''pro''],
      errors = [''name'' \<mapsto> ''Required'', ''plan'' \<mapsto> ''Pick one'']\<rparr>"

definition checkbox_input :: "string \<Rightarrow> bool \<Rightarrow> int target" where
  "checkbox_input nm b =
     \<lparr>element = HTMLInputElement, target_name = nm, target_type = ''checkbox'',
      target_value = ''on'', checked = b, valueAsNumber = 0, multiple = False,
      selectedOptions = []\<rparr>"

text \<open>
  Schemas with a field named like an inherited property: a text field \<^verbatim>\<open>toString\<close>,
  a text field \<^verbatim>\<open>valueOf\<close>, and a text field \<^verbatim>\<open>__proto__\<close> with a state in which
  \<^verbatim>\<open>handleFieldChange\<close> has stored the value \<^verbatim>\<open>'x'\<close> for it.
\<close>

definition no_values :: "int jsrecord" where
  "no_values = Map.empty"



definition proto_field :: "int FormField" where
  "proto_field = descriptor Text ''__proto__'' None"

definition proto_props :: "bool \<Rightarrow> int FormBuilderProps" where
  "proto_props reset =
     \<lparr>form_fields = [proto_field], initialValues = Map.empty, loading = False,
      resetOnSubmit = reset, validate = None\<rparr>"

definition proto_state :: "int FormState" where
  "proto_state =
     handleFieldChange (NameValue ''__proto__'' (JStr ''x''))
       \<lparr>formValues = Map.empty, errors = Map.empty\<rparr>"

section \<open>Loops that assign one property per field\<close>

text \<open>
  Every loop of the form builder runs over the schema and assigns the property named by
  the field. What such a loop leaves under a key depends only on the fields of that name;
  under \<^verbatim>\<open>__proto__\<close> it leaves nothing.
\<close>

lemma js_set_other: "j \<noteq> k \<Longrightarrow> js_set m j v k = m k"
  by (simp add: js_set_def)

lemma js_set_same: "k \<noteq> ''__proto__'' \<Longrightarrow> js_set m k v k = Some v"
  by (simp add: js_set_def)

lemma js_set_proto: "m ''__proto__'' = None \<Longrightarrow> js_set m j v ''__proto__'' = None"
  by (auto simp: js_set_def)

lemma fold_cond_set_other:
  "(\<forall>f\<in>set fs. P f \<longrightarrow> name f \<noteq> k) \<Longrightarrow>
   fold (\<lambda>f m. if P f then js_set m (name f) (val f) else m) fs acc k = acc k"
  by (induction fs arbitrary: acc) (simp_all add: js_set_other)

lemma fold_cond_set_proto:
  "acc ''__proto__'' = None \<Longrightarrow>
   fold (\<lambda>f m. if P f then js_set m (name f) (val f) else m) fs acc ''__proto__'' = None"
  by (induction fs arbitrary: acc) (simp_all add: js_set_proto)

lemma fold_cond_set_same:
  "k \<noteq> ''__proto__'' \<Longrightarrow> \<exists>f\<in>set fs. P f \<and> name f = k \<Longrightarrow>
   (\<forall>g\<in>set fs. P g \<and> name g = k \<longrightarrow> val g = v) \<Longrightarrow>
   fold (\<lambda>f m. if P f then js_set m (name f) (val f) else m) fs acc k = Some v"
proof (induction fs arbitrary: acc)
  case Nil
  then show ?case by simp
next
  case (Cons x xs)
  show ?case
  proof (cases "\<exists>f\<in>set xs. P f \<and> name f = k")
    case True
    with Cons show ?thesis by simp
  next
    case False
    with Cons.prems have x: "P x" "name x = k" "val x = v" by auto
    from False have "\<forall>f\<in>set xs. P f \<longrightarrow> name f \<noteq> k" by blast
    then have "fold (\<lambda>f m. if P f then js_set m (name f) (val f) else m) xs
                 (js_set acc (name x) (val x)) k = js_set acc (name x) (val x) k"
      by (rule fold_cond_set_other)
    with x Cons.prems(1) show ?thesis by (simp add: js_set_same)
  qed
qed

lemma fold_set_other:
  assumes "k \<notin> name ` set fs"
  shows "fold (\<lambda>f m. js_set m (name f) (val f)) fs acc k = acc k"
proof -
  from assms have "\<forall>f\<in>set fs. True \<longrightarrow> name f \<noteq> k" by blast
  from fold_cond_set_other [OF this, of val acc] show ?thesis by simp
qed

lemma fold_set_same:
  assumes "name f \<noteq> ''__proto__''" and "f \<in> set fs"
    and "\<forall>g\<in>set fs. name g = name f \<longrightarrow> val g = val f"
  shows "fold (\<lambda>f m. js_set m (name f) (val f)) fs acc (name f) = Some (val f)"
proof -
  from assms(2) have 1: "\<exists>g\<in>set fs. True \<and> name g = name f" by blast
  from assms(3) have 2: "\<forall>g\<in>set fs. True \<and> name g = name f \<longrightarrow> val g = val f" by blast
  from fold_cond_set_same [OF assms(1) 1 2, of acc] show ?thesis by simp
qed

lemma distinct_name_eq:
  "distinct (map name fs) \<Longrightarrow> f \<in> set fs \<Longrightarrow> g \<in> set fs \<Longrightarrow> name g = name f \<Longrightarrow> g = f"
  by (meson distinct_map inj_onD)

lemma fold_set_distinct:
  assumes "distinct (map name fs)" and "f \<in> set fs" and "name f \<noteq> ''__proto__''"
  shows "fold (\<lambda>f m. js_set m (name f) (val f)) fs acc (name f) = Some (val f)"
proof (rule fold_set_same [OF assms(3,2)])
  show "\<forall>g\<in>set fs. name g = name f \<longrightarrow> val g = val f"
    using distinct_name_eq [OF assms(1,2)] by blast
qed

lemma visibleValues_lookup:
  assumes "k \<noteq> ''__proto__''"
  shows "visibleValues fs vals k =
     (if \<exists>f\<in>set fs. is_visible f vals \<and> name f = k then Some (js_get vals k) else None)"
proof (cases "\<exists>f\<in>set fs. is_visible f vals \<and> name f = k")
  case True
  with assms
  have "fold (\<lambda>f m. if is_visible f vals then js_set m (name f) (js_get vals (name f)) else m)
               fs Map.empty k = Some (js_get vals k)"
    by (intro fold_cond_set_same) auto
  with True show ?thesis by (simp add: visibleValues_def)
next
  case False
  then have "fold (\<lambda>f m. if is_visible f vals then js_set m (name f) (js_get vals (name f)) else m)
               fs Map.empty k = Map.empty k"
    by (intro fold_cond_set_other) auto
  with False show ?thesis by (simp add: visibleValues_def)
qed

lemma visibleValues_outside:
  assumes "k \<notin> name ` set fs"
  shows "visibleValues fs vals k = None"
proof -
  from assms have "\<forall>f\<in>set fs. is_visible f vals \<longrightarrow> name f \<noteq> k" by blast
  then have "fold (\<lambda>f m. if is_visible f vals then js_set m (name f) (js_get vals (name f)) else m)
               fs Map.empty k = Map.empty k"
    by (rule fold_cond_set_other)
  then show ?thesis by (simp add: visibleValues_def)
qed


lemma not_in_schema_not_proto:
  "''__proto__'' \<notin> name ` set fs \<Longrightarrow> f \<in> set fs \<Longrightarrow> name f \<noteq> ''__proto__''"
  by (metis imageI)

section \<open>What the value-map loops compute\<close>

lemma defaultFor_documented: "defaultFor f = documented_default (ftype f)"
  by (cases "ftype f") (simp_all add: defaultFor_def)








lemma doReset_lookup:
  assumes "distinct (map name fs)" and "f \<in> set fs" and "name f \<noteq> ''__proto__''"
  shows "formValues (doReset fs s) (name f) = Some (defaultFor f)"
  using fold_set_distinct [OF assms, of defaultFor Map.empty] by (simp add: doReset_def)

lemma doReset_other:
  "k \<notin> name ` set fs \<Longrightarrow> formValues (doReset fs s) k = None"
  by (simp add: doReset_def fold_set_other)

lemma doReset_errors: "errors (doReset fs s) = Map.empty"
  by (simp add: doReset_def)

lemma handleSubmit_payload:
  assumes "validate_arg (handleSubmit p s) = Some payload \<or>
           onSubmit_arg (handleSubmit p s) = Some payload"
  shows "payload = visibleValues (form_fields p) (formValues s)"
  using assms by (auto simp: handleSubmit_def Let_def split: option.splits if_splits)

lemma handleSubmit_formValues: "formValues (state (handleSubmit p s)) = formValues s"
  by (simp add: handleSubmit_def Let_def split: option.splits)

lemma visibleValues_filled:
  "visibleValues signup_schema (formValues filled_state)
     = [''name'' \<mapsto> JStr ''Ada'', ''subscribe'' \<mapsto> JBool False]"
  by (simp add: visibleValues_def signup_schema_def descriptor_def filled_state_def
      is_visible_def subscribed_def js_get_def js_set_def)

lemma signup_schema_no_proto: "''__proto__'' \<notin> name ` set signup_schema"
  by (simp add: signup_schema_def descriptor_def)

lemma visibleValues_proto: "visibleValues [proto_field] (formValues proto_state) = no_values"
  by (simp add: visibleValues_def proto_field_def descriptor_def is_visible_def js_set_def
      no_values_def)

section \<open>The active-link decision\<close>

text \<open>
  C8, as the specification states it: for all current paths \<open>P\<close> and targets \<open>T\<close>, the
  decision with \<open>exact\<close> holds iff \<open>P = T\<close>, and without it iff \<open>P\<close> starts with \<open>T\<close>.
  The guard \<^verbatim>\<open>!pathname\<close> also rejects the empty string, so both equivalences fail
  at the empty current path with the empty target.
\<close>

theorem isActive_empty_path_counterexample:
  "\<not> (isActive (Some []) [] True \<longleftrightarrow> [] = ([] :: string)) \<and>
   \<not> (isActive (Some []) [] False \<longleftrightarrow> prefix ([] :: string) [])"
  by (simp add: isActive_def)

text \<open>
  C8, amended: for every non-empty current path \<open>P\<close> and every target \<open>T\<close>, the decision
  with \<open>exact\<close> holds iff \<open>P = T\<close> and without it iff \<open>T\<close> is a prefix of \<open>P\<close>; when the
  current path is unavailable (\<^verbatim>\<open>null\<close>) or the empty string, the result is false whatever
  the other inputs are.
\<close>

theorem isActive_decision:
  "(P \<noteq> [] \<longrightarrow>
      (isActive (Some P) T True \<longleftrightarrow> P = T) \<and>
      (isActive (Some P) T False \<longleftrightarrow> prefix T P)) \<and>
   \<not> isActive None T exact \<and>
   \<not> isActive (Some []) T exact"
  by (simp add: isActive_def)

theorem isActive_decision_witness:
  "''/login'' \<noteq> [] \<and>
   isActive (Some ''/login'') ''/login'' True \<and>
   \<not> isActive (Some ''/login'') ''/'' True \<and>
   isActive (Some ''/login'') ''/'' False \<and>
   \<not> isActive (Some ''/login'') ''/register'' False \<and>
   \<not> isActive None ''/'' True"
  using isActive_decision [of "''/login''" "''/login''" True]
        isActive_decision [of "''/login''" "''/''" True]
        isActive_decision [of "''/login''" "''/register''" True]
  by simp

section \<open>Value map: initialisation and schema change\<close>







section \<open>Field change\<close>

text \<open>
  C5: for both shapes of the argument of \<^verbatim>\<open>handleFieldChange\<close>, a (name, value) pair
  and a DOM change event, the new state holds the value under the field's name, holds the
  empty message under that name in the error map (so that no error is shown for it), and
  has every other entry of the value map and of the error map as before.
\<close>

theorem field_change_sets_one_value_clears_one_error:
  "(formValues (handleFieldChange (NameValue nm v) s) nm = Some v \<and>
    errors (handleFieldChange (NameValue nm v) s) nm = Some [] \<and>
    \<not> shown_error (errors (handleFieldChange (NameValue nm v) s)) nm \<and>
    (\<forall>k. k \<noteq> nm \<longrightarrow>
       formValues (handleFieldChange (NameValue nm v) s) k = formValues s k \<and>
       errors (handleFieldChange (NameValue nm v) s) k = errors s k)) \<and>
   (formValues (handleFieldChange (DomEvent t) s) (target_name t) = Some (event_value t) \<and>
    errors (handleFieldChange (DomEvent t) s) (target_name t) = Some [] \<and>
    \<not> shown_error (errors (handleFieldChange (DomEvent t) s)) (target_name t) \<and>
    (\<forall>k. k \<noteq> target_name t \<longrightarrow>
       formValues (handleFieldChange (DomEvent t) s) k = formValues s k \<and>
       errors (handleFieldChange (DomEvent t) s) k = errors s k))"
  by (simp add: shown_error_def)

theorem field_change_sets_one_value_clears_one_error_witness:
  "formValues (handleFieldChange (NameValue ''name'' (JStr ''Bob'')) filled_state) ''name''
     = Some (JStr ''Bob'') \<and>
   \<not> shown_error (errors (handleFieldChange (NameValue ''name'' (JStr ''Bob'')) filled_state))
       ''name'' \<and>
   formValues (handleFieldChange (NameValue ''name'' (JStr ''Bob'')) filled_state) ''plan''
     = Some (JStr ''pro'') \<and>
   errors (handleFieldChange (NameValue ''name'' (JStr ''Bob'')) filled_state) ''plan''
     = Some ''Pick one'' \<and>
   formValues (handleFieldChange (DomEvent (checkbox_input ''subscribe'' True)) filled_state)
       ''subscribe'' = Some (JBool True) \<and>
   errors (handleFieldChange (DomEvent (checkbox_input ''subscribe'' True)) filled_state) ''name''
     = Some ''Required''"
  using field_change_sets_one_value_clears_one_error
          [of "''name''" "JStr ''Bob''" filled_state "checkbox_input ''subscribe'' True"]
  by (simp add: filled_state_def checkbox_input_def event_value_def)

text \<open>
  C6: a change event from an \<^verbatim>\<open>input\<close> of type \<^verbatim>\<open>number\<close> stores the empty string when
  the input's text is empty and the number \<^verbatim>\<open>valueAsNumber\<close> otherwise; a cleared
  numeric field therefore holds the empty string and no number (neither 0 nor NaN).
\<close>

theorem number_input_keeps_empty_string:
  assumes "element t = HTMLInputElement" and "target_type t = ''number''"
  shows "formValues (handleFieldChange (DomEvent t) s) (target_name t) =
           Some (if target_value t = [] then JStr [] else JNum (valueAsNumber t)) \<and>
         (target_value t = [] \<longrightarrow>
            (\<forall>n. formValues (handleFieldChange (DomEvent t) s) (target_name t) \<noteq> Some (JNum n)))"
  using assms by (simp add: event_value_def)

theorem number_input_keeps_empty_string_witness:
  "element (number_input ''age'' [] 0) = HTMLInputElement \<and>
   target_type (number_input ''age'' [] 0) = ''number'' \<and>
   formValues (handleFieldChange (DomEvent (number_input ''age'' [] 0))
                \<lparr>formValues = [''age'' \<mapsto> JNum 4], errors = Map.empty\<rparr>) ''age''
     = Some (JStr []) \<and>
   formValues (handleFieldChange (DomEvent (number_input ''age'' ''42'' 42))
                \<lparr>formValues = [''age'' \<mapsto> JNum 4], errors = Map.empty\<rparr>) ''age''
     = Some (JNum 42)"
  using number_input_keeps_empty_string
          [of "number_input ''age'' [] 0" "\<lparr>formValues = [''age'' \<mapsto> JNum 4], errors = Map.empty\<rparr>"]
        number_input_keeps_empty_string
          [of "number_input ''age'' ''42'' 42"
              "\<lparr>formValues = [''age'' \<mapsto> JNum 4], errors = Map.empty\<rparr>"]
  by (simp add: number_input_def)

section \<open>Submit\<close>

text \<open>
  C1: when a validator is supplied, a submit attempt calls it with the visible values,
  the error map becomes its result (the empty map for \<^verbatim>\<open>null\<close>) whatever it held, the
  handler is not called when that map is non-empty, and is called with the visible values
  when it is empty.
\<close>

theorem submit_validator_gates_handler:
  assumes "validate p = Some v"
  shows "validate_arg (handleSubmit p s) = Some (visibleValues (form_fields p) (formValues s)) \<and>
         errors (state (handleSubmit p s)) =
           (case v (visibleValues (form_fields p) (formValues s)) of
              None \<Rightarrow> Map.empty | Some e \<Rightarrow> e) \<and>
         (errors (state (handleSubmit p s)) \<noteq> Map.empty \<longrightarrow>
            onSubmit_arg (handleSubmit p s) = None) \<and>
         (errors (state (handleSubmit p s)) = Map.empty \<longrightarrow>
            onSubmit_arg (handleSubmit p s) =
              Some (visibleValues (form_fields p) (formValues s)))"
  using assms by (simp add: handleSubmit_def Let_def)

theorem submit_validator_gates_handler_witness:
  "validate (signup_props Map.empty False (Some name_required)) = Some name_required \<and>
   errors (state (handleSubmit (signup_props Map.empty False (Some name_required)) filled_state))
     = Map.empty \<and>
   onSubmit_arg (handleSubmit (signup_props Map.empty False (Some name_required)) filled_state)
     = Some [''name'' \<mapsto> JStr ''Ada'', ''subscribe'' \<mapsto> JBool False] \<and>
   errors (state (handleSubmit (signup_props Map.empty False (Some name_required))
                     (handleFieldChange (NameValue ''name'' (JStr [])) filled_state)))
     = [''name'' \<mapsto> ''Required''] \<and>
   onSubmit_arg (handleSubmit (signup_props Map.empty False (Some name_required))
                   (handleFieldChange (NameValue ''name'' (JStr [])) filled_state))
     = None"
  using submit_validator_gates_handler
          [of "signup_props Map.empty False (Some name_required)" name_required filled_state]
        submit_validator_gates_handler
          [of "signup_props Map.empty False (Some name_required)" name_required
              "handleFieldChange (NameValue ''name'' (JStr [])) filled_state"]
  by (simp add: signup_props_def visibleValues_def signup_schema_def descriptor_def
      filled_state_def is_visible_def subscribed_def js_get_def js_set_def name_required_def)

text \<open>
  C2, as the specification states it: the payload has an entry for every field without a
  visibility predicate. The loop assigns \<^verbatim>\<open>visibleValues[f.name]\<close>, and for a field
  named \<^verbatim>\<open>__proto__\<close> that assignment runs the inherited setter: the field is visible and
  holds \<^verbatim>\<open>'x'\<close>, yet the payload given to the handler has no entry for it.
\<close>

theorem payload_proto_field_counterexample:
  "distinct (map name (form_fields (proto_props False))) \<and>
   proto_field \<in> set (form_fields (proto_props False)) \<and>
   visibleIf proto_field = None \<and>
   formValues proto_state (name proto_field) = Some (JStr ''x'') \<and>
   onSubmit_arg (handleSubmit (proto_props False) proto_state) = Some no_values \<and>
   name proto_field \<notin> dom no_values"
proof -
  have "visibleValues (form_fields (proto_props False)) (formValues proto_state) = no_values"
    by (simp add: proto_props_def visibleValues_proto)
  then have "onSubmit_arg (handleSubmit (proto_props False) proto_state) = Some no_values"
    by (simp add: handleSubmit_def proto_props_def)
  then show ?thesis
    by (simp add: proto_props_def proto_state_def proto_field_def descriptor_def no_values_def)
qed

text \<open>
  C2, amended: in a schema of unique names with no field named \<^verbatim>\<open>__proto__\<close>, the
  payload given to the validator and to the handler has an entry for a field iff the
  field has no visibility predicate or its predicate holds of the current full value map;
  the entry is the field's current value. A field whose predicate is false has no entry,
  whatever value it holds.
\<close>

theorem payload_is_visible_fields:
  assumes "distinct (map name (form_fields p))"
    and "''__proto__'' \<notin> name ` set (form_fields p)"
    and "f \<in> set (form_fields p)"
    and "validate_arg (handleSubmit p s) = Some payload \<or>
         onSubmit_arg (handleSubmit p s) = Some payload"
  shows "(name f \<in> dom payload \<longleftrightarrow>
            (case visibleIf f of None \<Rightarrow> True | Some pr \<Rightarrow> pr (formValues s))) \<and>
         (name f \<in> dom payload \<longrightarrow> payload (name f) = Some (js_get (formValues s) (name f)))"
proof -
  have p: "payload = visibleValues (form_fields p) (formValues s)"
    using assms(4) by (rule handleSubmit_payload)
  have np: "name f \<noteq> ''__proto__''"
    using assms(2,3) by (rule not_in_schema_not_proto)
  have "(\<exists>g\<in>set (form_fields p). is_visible g (formValues s) \<and> name g = name f)
          \<longleftrightarrow> is_visible f (formValues s)"
    using distinct_name_eq [OF assms(1,3)] assms(3) by blast
  then show ?thesis
    by (simp add: p visibleValues_lookup [OF np] dom_def is_visible_def)
qed

theorem payload_is_visible_fields_witness:
  "distinct (map name (form_fields (signup_props Map.empty False None))) \<and>
   ''__proto__'' \<notin> name ` set (form_fields (signup_props Map.empty False None)) \<and>
   descriptor Select ''plan'' (Some subscribed)
     \<in> set (form_fields (signup_props Map.empty False None)) \<and>
   onSubmit_arg (handleSubmit (signup_props Map.empty False None) filled_state)
     = Some [''name'' \<mapsto> JStr ''Ada'', ''subscribe'' \<mapsto> JBool False] \<and>
   formValues filled_state ''plan'' = Some (JStr ''pro'') \<and>
   ''plan'' \<notin> dom [''name'' \<mapsto> JStr ''Ada'', ''subscribe'' \<mapsto> JBool False :: int jsval] \<and>
   ''subscribe'' \<in> dom [''name'' \<mapsto> JStr ''Ada'', ''subscribe'' \<mapsto> JBool False :: int jsval]"
proof -
  let ?p = "signup_props Map.empty False None"
  let ?payload = "[''name'' \<mapsto> JStr ''Ada'', ''subscribe'' \<mapsto> JBool False] :: int jsrecord"
  let ?plan = "descriptor Select ''plan'' (Some subscribed)"
  let ?subscribe = "descriptor Checkbox ''subscribe'' None :: int FormField"
  have d: "distinct (map name (form_fields ?p))"
    by (simp add: signup_props_def signup_schema_def descriptor_def)
  have n: "''__proto__'' \<notin> name ` set (form_fields ?p)"
    by (simp add: signup_props_def signup_schema_no_proto)
  have m1: "?plan \<in> set (form_fields ?p)" and m2: "?subscribe \<in> set (form_fields ?p)"
    by (simp_all add: signup_props_def signup_schema_def)
  have h: "onSubmit_arg (handleSubmit ?p filled_state) = Some ?payload"
    by (simp add: signup_props_def handleSubmit_def visibleValues_filled)
  have stale: "formValues filled_state ''plan'' = Some (JStr ''pro'')"
    by (simp add: filled_state_def)
  have "name ?plan \<in> dom ?payload \<longleftrightarrow>
          (case visibleIf ?plan of None \<Rightarrow> True | Some pr \<Rightarrow> pr (formValues filled_state))"
    using payload_is_visible_fields [OF d n m1 disjI2 [OF h]] by (rule conjunct1)
  then have hidden: "''plan'' \<notin> dom ?payload"
    by (simp only: descriptor_def FormField.simps option.case subscribed_def filled_state_def
          FormState.simps) simp
  have "name ?subscribe \<in> dom ?payload \<longleftrightarrow>
          (case visibleIf ?subscribe of None \<Rightarrow> True | Some pr \<Rightarrow> pr (formValues filled_state))"
    using payload_is_visible_fields [OF d n m2 disjI2 [OF h]] by (rule conjunct1)
  then have shown: "''subscribe'' \<in> dom ?payload"
    by (simp only: descriptor_def FormField.simps option.case simp_thms)
  from d n m1 h stale hidden shown show ?thesis by blast
qed

text \<open>
  C10: the effect on \<^verbatim>\<open>[initialValues]\<close> may put keys into the value map that name no
  field, yet every key of the payload given to the validator and to the handler after it
  is the name of a field of the schema.
\<close>

theorem payload_keys_are_schema_names:
  assumes "validate_arg (handleSubmit p
              (s\<lparr>formValues := initialValues_effect (initialValues p) (formValues s)\<rparr>))
             = Some payload \<or>
           onSubmit_arg (handleSubmit p
              (s\<lparr>formValues := initialValues_effect (initialValues p) (formValues s)\<rparr>))
             = Some payload"
  shows "dom payload \<subseteq> name ` set (form_fields p)"
proof
  fix k
  assume k: "k \<in> dom payload"
  have "payload = visibleValues (form_fields p)
          (formValues (s\<lparr>formValues := initialValues_effect (initialValues p) (formValues s)\<rparr>))"
    using assms by (rule handleSubmit_payload)
  with k show "k \<in> name ` set (form_fields p)"
    using visibleValues_outside [of k "form_fields p"] by (cases "k \<in> name ` set (form_fields p)") auto
qed

theorem payload_keys_are_schema_names_witness:
  "initialValues_effect (initialValues (signup_props [''ghost'' \<mapsto> JNum 1] False None))
      (formValues filled_state) ''ghost'' = Some (JNum 1) \<and>
   ''ghost'' \<notin> name ` set (form_fields (signup_props [''ghost'' \<mapsto> JNum 1] False None)) \<and>
   onSubmit_arg (handleSubmit (signup_props [''ghost'' \<mapsto> JNum 1] False None)
      (filled_state\<lparr>formValues :=
         initialValues_effect (initialValues (signup_props [''ghost'' \<mapsto> JNum 1] False None))
           (formValues filled_state)\<rparr>))
     = Some [''name'' \<mapsto> JStr ''Ada'', ''subscribe'' \<mapsto> JBool False] \<and>
   dom [''name'' \<mapsto> JStr ''Ada'', ''subscribe'' \<mapsto> JBool False :: int jsval]
     \<subseteq> name ` set (form_fields (signup_props [''ghost'' \<mapsto> JNum 1] False None))"
  using payload_keys_are_schema_names
          [of "signup_props [''ghost'' \<mapsto> JNum 1] False None" filled_state
              "[''name'' \<mapsto> JStr ''Ada'', ''subscribe'' \<mapsto> JBool False]"]
  by (simp add: signup_props_def handleSubmit_def visibleValues_def signup_schema_def
      descriptor_def filled_state_def is_visible_def subscribed_def js_get_def js_set_def
      initialValues_effect_def)


section \<open>Reset after submit\<close>

text \<open>
  C7, as the specification states it: after the reset every field is at the default of
  its variant. The loop assigns \<^verbatim>\<open>reset[f.name]\<close>, and for a text field named
  \<^verbatim>\<open>__proto__\<close> the inherited setter takes the empty string and creates no property:
  after a fulfilled submit with \<^verbatim>\<open>resetOnSubmit\<close> the value map has no entry for the field.
\<close>

theorem reset_proto_field_counterexample:
  "distinct (map name (form_fields (proto_props True))) \<and>
   proto_field \<in> set (form_fields (proto_props True)) \<and>
   resetOnSubmit (proto_props True) \<and>
   onSubmit_arg (handleSubmit (proto_props True) proto_state) \<noteq> None \<and>
   formValues (submit_cycle (proto_props True) Resolved proto_state) (name proto_field) = None \<and>
   formValues (submit_cycle (proto_props True) Resolved proto_state) (name proto_field)
     \<noteq> Some (documented_default (ftype proto_field))"
  by (simp add: proto_props_def submit_cycle_def after_onSubmit_def handleSubmit_def
      doReset_def js_set_def proto_field_def descriptor_def)

text \<open>
  C7, amended: in a schema of unique names with no field named \<^verbatim>\<open>__proto__\<close>, with
  \<^verbatim>\<open>resetOnSubmit\<close> a submit attempt whose handler is called and whose promise is
  fulfilled ends with every field at the default of its variant (not at its initial
  value), no entry outside the schema, and the empty error map; without
  \<^verbatim>\<open>resetOnSubmit\<close> it ends in the state the synchronous part left, with the value map as
  it was.
\<close>

theorem reset_after_successful_submit:
  assumes "distinct (map name (form_fields p))"
    and "''__proto__'' \<notin> name ` set (form_fields p)"
  shows "(resetOnSubmit p \<longrightarrow> onSubmit_arg (handleSubmit p s) \<noteq> None \<longrightarrow>
            (\<forall>f\<in>set (form_fields p).
               formValues (submit_cycle p Resolved s) (name f)
                 = Some (documented_default (ftype f))) \<and>
            (\<forall>k. k \<notin> name ` set (form_fields p) \<longrightarrow>
               formValues (submit_cycle p Resolved s) k = None) \<and>
            errors (submit_cycle p Resolved s) = Map.empty) \<and>
         (\<not> resetOnSubmit p \<longrightarrow>
            submit_cycle p outcome s = state (handleSubmit p s) \<and>
            formValues (submit_cycle p outcome s) = formValues s)"
proof (intro conjI impI)
  assume r: "resetOnSubmit p" and h: "onSubmit_arg (handleSubmit p s) \<noteq> None"
  then have c: "submit_cycle p Resolved s = doReset (form_fields p) (state (handleSubmit p s))"
    by (auto simp: submit_cycle_def after_onSubmit_def Let_def)
  show "\<forall>f\<in>set (form_fields p).
          formValues (submit_cycle p Resolved s) (name f) = Some (documented_default (ftype f))"
    using doReset_lookup [OF assms(1)] not_in_schema_not_proto [OF assms(2)]
    by (simp add: c defaultFor_documented)
  show "\<forall>k. k \<notin> name ` set (form_fields p) \<longrightarrow>
          formValues (submit_cycle p Resolved s) k = None"
    by (simp add: c doReset_other)
  show "errors (submit_cycle p Resolved s) = Map.empty"
    by (simp add: c doReset_errors)
next
  assume "\<not> resetOnSubmit p"
  then show c: "submit_cycle p outcome s = state (handleSubmit p s)"
    by (simp add: submit_cycle_def after_onSubmit_def Let_def split: option.splits)
  show "formValues (submit_cycle p outcome s) = formValues s"
    by (simp add: c handleSubmit_formValues)
qed

theorem reset_after_successful_submit_witness:
  "distinct (map name (form_fields (signup_props [''name'' \<mapsto> JStr ''Ada''] True None))) \<and>
   ''__proto__'' \<notin> name ` set (form_fields (signup_props [''name'' \<mapsto> JStr ''Ada''] True None)) \<and>
   resetOnSubmit (signup_props [''name'' \<mapsto> JStr ''Ada''] True None) \<and>
   onSubmit_arg (handleSubmit (signup_props [''name'' \<mapsto> JStr ''Ada''] True None) filled_state)
     \<noteq> None \<and>
   formValues (submit_cycle (signup_props [''name'' \<mapsto> JStr ''Ada''] True None) Resolved
                 filled_state) ''name'' = Some (JStr []) \<and>
   formValues (submit_cycle (signup_props [''name'' \<mapsto> JStr ''Ada''] True None) Resolved
                 filled_state) ''plan'' = Some (JStr []) \<and>
   errors (submit_cycle (signup_props [''name'' \<mapsto> JStr ''Ada''] True None) Resolved
             filled_state) = Map.empty \<and>
   \<not> resetOnSubmit (signup_props [''name'' \<mapsto> JStr ''Ada''] False None) \<and>
   formValues (submit_cycle (signup_props [''name'' \<mapsto> JStr ''Ada''] False None) Resolved
                 filled_state) = formValues filled_state"
  using reset_after_successful_submit
          [of "signup_props [''name'' \<mapsto> JStr ''Ada''] True None" filled_state Resolved]
        reset_after_successful_submit
          [of "signup_props [''name'' \<mapsto> JStr ''Ada''] False None" filled_state Resolved]
  by (simp add: signup_props_def signup_schema_def descriptor_def handleSubmit_def)

end
